theory Spec2Isabelle
  imports Complex_Main
begin

section \<open>Python values\<close>

text \<open>
  The token event handler works on untyped Python data: request parameters, the decoded
  JSON response, the audit record and the handler options. The values that can occur
  are None, booleans, integers, floats, strings, lists and dictionaries with string
  keys. Strings are ASCII text. A float is given by its value: the rational number it
  stands for when it is finite, or an infinity, or not a number; the handler only tests
  floats for zero, compares them with 1 and converts them with \<open>int\<close>, all of which
  depend on the value alone. A dictionary is an association list read by \<open>map_of\<close>.
\<close>

datatype pyfloat = Finite rat | PosInf | NegInf | NaN

datatype pyval =
    PNone
  | PBool bool
  | PInt int
  | PFloat pyfloat
  | PStr string
  | PList "pyval list"
  | PDict "(string \<times> pyval) list"

type_synonym dict = "(string \<times> pyval) list"

datatype error = ValueError | AttributeError | TypeError | OverflowError

text \<open>Truth value testing, as used by \<open>if x:\<close> and \<open>x or y\<close>.\<close>

fun truthy :: "pyval \<Rightarrow> bool" where
  "truthy PNone = False"
| "truthy (PBool b) = b"
| "truthy (PInt i) = (i \<noteq> 0)"
| "truthy (PFloat x) = (x \<noteq> Finite 0)"
| "truthy (PStr s) = (s \<noteq> [])"
| "truthy (PList xs) = (xs \<noteq> [])"
| "truthy (PDict kvs) = (kvs \<noteq> [])"

text \<open>\<open>d.get(k, default)\<close> on an object known to be a dict.\<close>

definition dict_get :: "dict \<Rightarrow> string \<Rightarrow> pyval \<Rightarrow> pyval" where
  "dict_get d k dflt = (case map_of d k of None \<Rightarrow> dflt | Some v \<Rightarrow> v)"

text \<open>
  \<open>x.get(k, default)\<close> on an arbitrary value: only a dict has the method, every
  other value raises AttributeError.
\<close>

fun py_get :: "pyval \<Rightarrow> string \<Rightarrow> pyval \<Rightarrow> error + pyval" where
  "py_get (PDict d) k dflt = Inr (dict_get d k dflt)"
| "py_get _ k dflt = Inl AttributeError"

text \<open>
  The numeric reading of a value: \<open>True\<close> and \<open>False\<close> are the integers 1 and 0,
  and a finite float is its value. Infinities and not-a-number have none.
\<close>

fun py_num :: "pyval \<Rightarrow> rat option" where
  "py_num (PBool b) = Some (if b then 1 else 0)"
| "py_num (PInt i) = Some (of_int i)"
| "py_num (PFloat (Finite q)) = Some q"
| "py_num _ = None"

text \<open>
  \<open>a == b\<close>. Numbers compare by value, so \<open>1 == True\<close> and \<open>1.0 == 1\<close>; not a
  number equals nothing, itself included; everything else compares structurally. This
  is exact whenever one operand is not a container, which is the only way the handler
  uses it.
\<close>

definition py_eq :: "pyval \<Rightarrow> pyval \<Rightarrow> bool" where
  "py_eq a b =
     (case (py_num a, py_num b) of
        (Some x, Some y) \<Rightarrow> x = y
      | (None, None) \<Rightarrow> a = b \<and> a \<noteq> PFloat NaN
      | _ \<Rightarrow> False)"

text \<open>\<open>x in [v1, ..., vn]\<close>, for a list that does not hold the object \<open>x\<close> itself.\<close>

definition py_in :: "pyval \<Rightarrow> pyval list \<Rightarrow> bool" where
  "py_in x vs = list_ex (py_eq x) vs"

subsection \<open>Strings\<close>

text \<open>\<open>str.lower()\<close> on ASCII text.\<close>

definition lower_char :: "char \<Rightarrow> char" where
  "lower_char c =
     (case map_of (zip ''ABCDEFGHIJKLMNOPQRSTUVWXYZ'' ''abcdefghijklmnopqrstuvwxyz'') c of
        None \<Rightarrow> c
      | Some l \<Rightarrow> l)"

definition lower :: "string \<Rightarrow> string" where
  "lower s = map lower_char s"

text \<open>
  \<open>int(x)\<close>. A string is stripped of surrounding whitespace and must then be an
  optional sign followed by decimal digits, which may be grouped by single underscores
  between digits; anything else is a ValueError. So is a string of more digits than
  \<open>sys.get_int_max_str_digits()\<close> allows, when that limit is set (it is 0 for no
  limit, or at least 640; 4300 unless configured). A float is truncated towards zero; not
  a number is a ValueError and an infinity an OverflowError. None and containers are a
  TypeError.
\<close>

definition is_space :: "char \<Rightarrow> bool" where
  "is_space c = (c \<in> set [CHR 0x09, CHR 0x0A, CHR 0x0B, CHR 0x0C, CHR 0x0D, CHR '' ''])"

definition strip :: "string \<Rightarrow> string" where
  "strip s = rev (dropWhile is_space (rev (dropWhile is_space s)))"

definition digit_val :: "char \<Rightarrow> int option" where
  "digit_val c = map_of (zip ''0123456789'' [0, 1, 2, 3, 4, 5, 6, 7, 8, 9]) c"

definition is_digit :: "char \<Rightarrow> bool" where
  "is_digit c = (digit_val c \<noteq> None)"

definition digits_val :: "string \<Rightarrow> int" where
  "digits_val ds =
     foldl (\<lambda>acc c. 10 * acc + (case digit_val c of None \<Rightarrow> 0 | Some d \<Rightarrow> d)) 0 ds"

text \<open>
  The characters after a digit: digits and underscores, no underscore next to an
  underscore and none at the end. The first argument is the character before.
\<close>

fun digits_ok :: "char \<Rightarrow> string \<Rightarrow> bool" where
  "digits_ok prev [] = (prev \<noteq> CHR ''_'')"
| "digits_ok prev (c # cs) =
     (if c = CHR ''_'' then prev \<noteq> CHR ''_'' \<and> digits_ok c cs
      else is_digit c \<and> digits_ok c cs)"

definition unsigned_of_str :: "nat \<Rightarrow> string \<Rightarrow> error + int" where
  "unsigned_of_str max_str_digits ds =
     (case ds of
        [] \<Rightarrow> Inl ValueError
      | c # cs \<Rightarrow>
          let digits = filter is_digit ds in
          if \<not> (is_digit c \<and> digits_ok c cs) then Inl ValueError
          else if 640 < length digits \<and> 0 < max_str_digits \<and> max_str_digits < length digits
          then Inl ValueError
          else Inr (digits_val digits))"

definition int_of_str :: "nat \<Rightarrow> string \<Rightarrow> error + int" where
  "int_of_str max_str_digits s =
     (case strip s of
        [] \<Rightarrow> Inl ValueError
      | c # r \<Rightarrow>
          if c = CHR ''-'' then map_sum id uminus (unsigned_of_str max_str_digits r)
          else if c = CHR ''+'' then unsigned_of_str max_str_digits r
          else unsigned_of_str max_str_digits (c # r))"

fun py_int :: "nat \<Rightarrow> pyval \<Rightarrow> error + int" where
  "py_int m (PInt i) = Inr i"
| "py_int m (PBool b) = Inr (if b then 1 else 0)"
| "py_int m (PFloat (Finite q)) = Inr (if 0 \<le> q then \<lfloor>q\<rfloor> else \<lceil>q\<rceil>)"
| "py_int m (PFloat NaN) = Inl ValueError"
| "py_int m (PFloat PosInf) = Inl OverflowError"
| "py_int m (PFloat NegInf) = Inl OverflowError"
| "py_int m (PStr s) = int_of_str m s"
| "py_int m PNone = Inl TypeError"
| "py_int m (PList xs) = Inl TypeError"
| "py_int m (PDict kvs) = Inl TypeError"

section \<open>Collaborators\<close>

text \<open>
  The token library, the realm library and the base event handler are outside this
  module. A run of the handler is described by what it returns or raises together with
  the collaborator calls it issues, in order, each with its arguments. The calls
  themselves are taken to return normally, and the messages written to the log are not
  part of a run. Type \<open>'u\<close> is the user object that \<open>_get_tokenowner\<close> returns.
\<close>

datatype 'u call =
    Get_realms
  | Get_token_types
  | Get_tokenowner
  | Set_realms pyval "pyval list" bool
  | Remove_token pyval
  | Enable_token pyval bool
  | Unassign_token pyval
  | Set_description pyval pyval
  | Set_count_window pyval int
  | Add_tokeninfo pyval pyval pyval
  | Set_validity_period_start pyval pyval string
  | Set_validity_period_end pyval pyval string
  | Init_token dict "'u option"

text \<open>The calls that change a token; the other three only read.\<close>

fun is_mutation :: "'u call \<Rightarrow> bool" where
  "is_mutation Get_realms = False"
| "is_mutation Get_token_types = False"
| "is_mutation Get_tokenowner = False"
| "is_mutation _ = True"

type_synonym ('a, 'u) run = "(error + 'a) \<times> 'u call list"

definition ret :: "'a \<Rightarrow> ('a, 'u) run" where
  "ret x = (Inr x, [])"

definition raise :: "error \<Rightarrow> ('a, 'u) run" where
  "raise e = (Inl e, [])"

definition call :: "'u call \<Rightarrow> (unit, 'u) run" where
  "call c = (Inr (), [c])"

definition lift :: "error + 'a \<Rightarrow> ('a, 'u) run" where
  "lift r = (case r of Inl e \<Rightarrow> raise e | Inr x \<Rightarrow> ret x)"

text \<open>Sequencing: an exception ends the run and keeps the calls made so far.\<close>

definition bind :: "('a, 'u) run \<Rightarrow> ('a \<Rightarrow> ('b, 'u) run) \<Rightarrow> ('b, 'u) run" where
  "bind m f =
     (case m of
        (Inl e, t) \<Rightarrow> (Inl e, t)
      | (Inr x, t) \<Rightarrow> (case f x of (r, t') \<Rightarrow> (r, t @ t')))"

text \<open>
  What the handler uses from outside the module and the standard library:
  \<open>json.loads\<close> (None when the text is not JSON, which raises ValueError), the
  interpreter's limit \<open>sys.get_int_max_str_digits()\<close>,
  \<open>parse_date\<close> from \<open>privacyidea.lib.utils\<close> with the datetime type \<open>'d\<close>,
  \<open>d.strftime(DATE_FORMAT)\<close>, the result of \<open>self._get_tokenowner(request)\<close> for a
  request given by its \<open>all_data\<close>. A \<open>parse_date\<close> that returns None instead of
  a datetime makes \<open>d.strftime\<close> raise AttributeError before any call is made; that
  is an error result of \<open>parse_date\<close> here.
\<close>

record ('u, 'd) env =
  json_loads :: "string \<Rightarrow> pyval option"
  int_max_str_digits :: nat
  parse_date :: "pyval \<Rightarrow> error + 'd"
  strftime_DATE_FORMAT :: "'d \<Rightarrow> string"
  get_tokenowner :: "dict \<Rightarrow> 'u"

section \<open>The token event handler\<close>

definition SET_TOKENREALM :: string where "SET_TOKENREALM = ''set tokenrealm''"
definition DELETE :: string where "DELETE = ''delete''"
definition UNASSIGN :: string where "UNASSIGN = ''unassign''"
definition DISABLE :: string where "DISABLE = ''disable''"
definition ENABLE :: string where "ENABLE = ''enable''"
definition INIT :: string where "INIT = ''enroll''"
definition SET_DESCRIPTION :: string where "SET_DESCRIPTION = ''set description''"
definition SET_VALIDITY :: string where "SET_VALIDITY = ''set validity''"
definition SET_COUNTWINDOW :: string where "SET_COUNTWINDOW = ''set countwindow''"
definition SET_TOKENINFO :: string where "SET_TOKENINFO = ''set tokeninfo''"

definition VALIDITY_START :: string where "VALIDITY_START = ''valid from''"
definition VALIDITY_END :: string where "VALIDITY_END = ''valid till''"

subsection \<open>The action schema\<close>

text \<open>
  The two enumerations that \<open>actions\<close> reads, as functions of the state \<open>'s\<close> of the
  realm and token libraries at the time of the call: \<open>get_realms()\<close> returns a dict
  keyed by realm name, \<open>get_token_types()\<close> a list of type names.
\<close>

record 's enumerations =
  get_realms :: "'s \<Rightarrow> dict"
  get_token_types :: "'s \<Rightarrow> string list"
  gettext :: "string \<Rightarrow> string"

definition keys :: "dict \<Rightarrow> pyval" where
  "keys d = PList (map (PStr \<circ> fst) d)"

text \<open>
  The property \<open>actions\<close> of \<open>TokenEventHandler\<close>: the returned dict and the
  collaborator calls made to build it.
\<close>

definition actions :: "'s enumerations \<Rightarrow> 's \<Rightarrow> dict \<times> 'u call list" where
  "actions lib s =
     (let realm_list = keys (get_realms lib s);
          token_types = PList (map PStr (get_token_types lib s));
          tr = gettext lib
      in
      ([(SET_TOKENREALM, PDict
          [(''realm'', PDict
             [(''type'', PStr ''str''),
              (''required'', PBool True),
              (''description'', PStr (tr ''set a new realm of the token'')),
              (''value'', realm_list)]),
           (''only_realm'', PDict
             [(''type'', PStr ''bool''),
              (''description'', PStr (tr (''The new realm will be the only '' @
                 ''realm of the token. I.e. all '' @
                 ''other realms will be removed '' @
                 ''from this token. Otherwise the '' @
                 ''realm will be added to the token.'')))])]),
        (DELETE, PDict []),
        (UNASSIGN, PDict []),
        (DISABLE, PDict []),
        (ENABLE, PDict []),
        (INIT, PDict
          [(''tokentype'', PDict
             [(''type'', PStr ''str''),
              (''required'', PBool True),
              (''description'', PStr (tr ''Token type to create'')),
              (''value'', token_types)]),
           (''user'', PDict
             [(''type'', PStr ''bool''),
              (''description'', PStr (tr (''Assign token to user in '' @
                 ''request or tokenowner.'')))]),
           (''realm'', PDict
             [(''type'', PStr ''str''),
              (''required'', PBool False),
              (''description'', PStr (tr (''Set the realm of the newly '' @
                 ''created token.''))),
              (''value'', realm_list)])]),
        (SET_DESCRIPTION, PDict
          [(''description'', PDict
             [(''type'', PStr ''str''),
              (''description'', PStr (tr (''The new description of the '' @
                 ''token.'')))])]),
        (SET_VALIDITY, PDict
          [(VALIDITY_START, PDict
             [(''type'', PStr ''str''),
              (''description'', PStr (tr (''The token will be valid starting '' @
                 ''at the given date. Can be a fixed '' @
                 ''date or an offset like +10m, '' @
                 ''+24h, +7d.'')))]),
           (VALIDITY_END, PDict
             [(''type'', PStr ''str''),
              (''description'', PStr (tr (''The token will be valid until '' @
                 ''the given date. Can be a fixed '' @
                 ''date or an offset like +10m, '' @
                 ''+24h, +7d.'')))])]),
        (SET_COUNTWINDOW, PDict
          [(''count window'', PDict
             [(''type'', PStr ''str''),
              (''required'', PBool True),
              (''description'', PStr (tr (''Set the new count window of '' @
                 ''the token.'')))])]),
        (SET_TOKENINFO, PDict
          [(''key'', PDict
             [(''type'', PStr ''str''),
              (''required'', PBool True),
              (''description'', PStr (tr ''Set this tokeninfo key.''))]),
           (''value'', PDict
             [(''type'', PStr ''str''),
              (''description'', PStr (tr (''Set the above key the this '' @
                 ''value.'')))])])],
       [Get_realms, Get_token_types]))"

subsection \<open>Executing an action\<close>

text \<open>
  What \<open>do\<close> reads from its \<open>options\<close> argument: \<open>g.audit_object.audit_data\<close>,
  \<open>request.all_data\<close>, \<open>response.data\<close> and the handler definition.
\<close>

record options =
  audit_data :: dict
  all_data :: dict
  response_data :: string
  handler_def :: dict

text \<open>
  The serial number: the first truthy one of the request's, the response detail's and
  the audit record's, the last one whatever it is. \<open>or\<close> evaluates its right operand
  only when the left one is falsy, so a response without a dict under \<open>detail\<close>
  raises only when the request has no serial.
\<close>

definition serial_of :: "dict \<Rightarrow> pyval \<Rightarrow> dict \<Rightarrow> error + pyval" where
  "serial_of request_all_data content g_audit_data =
     (let s1 = dict_get request_all_data ''serial'' PNone in
      if truthy s1 then Inr s1
      else
        (case py_get content ''detail'' (PDict []) of
           Inl e \<Rightarrow> Inl e
         | Inr detail \<Rightarrow>
             (case py_get detail ''serial'' PNone of
                Inl e \<Rightarrow> Inl e
              | Inr s2 \<Rightarrow>
                  if truthy s2 then Inr s2
                  else Inr (dict_get g_audit_data ''serial'' PNone))))"

definition do :: "('u, 'd) env \<Rightarrow> string \<Rightarrow> options \<Rightarrow> (bool, 'u) run" where
  "do env action opts =
     bind (lift (case json_loads env (response_data opts) of
                   None \<Rightarrow> Inl ValueError
                 | Some c \<Rightarrow> Inr c)) (\<lambda>content.
     let handler_options = dict_get (handler_def opts) ''options'' (PDict []) in
     bind (lift (serial_of (all_data opts) content (audit_data opts))) (\<lambda>serial.
     bind
       (if lower action \<in> set [SET_TOKENREALM, SET_DESCRIPTION, DELETE, DISABLE,
                                 ENABLE, UNASSIGN, SET_VALIDITY, SET_COUNTWINDOW,
                                 SET_TOKENINFO]
        then
          if truthy serial then
            if lower action = SET_TOKENREALM then
              bind (lift (py_get handler_options ''realm'' PNone)) (\<lambda>realm.
              bind (lift (py_get handler_options ''only_realm'' PNone)) (\<lambda>only_realm.
              call (Set_realms serial [realm] True)))
            else if lower action = DELETE then
              call (Remove_token serial)
            else if lower action = DISABLE then
              call (Enable_token serial False)
            else if lower action = ENABLE then
              call (Enable_token serial True)
            else if lower action = UNASSIGN then
              call (Unassign_token serial)
            else if lower action = SET_DESCRIPTION then
              bind (lift (py_get handler_options ''description'' (PStr []))) (\<lambda>description.
              call (Set_description serial description))
            else if lower action = SET_COUNTWINDOW then
              bind (lift (py_get handler_options ''count window'' (PInt 50))) (\<lambda>count_window.
              bind (lift (py_int (int_max_str_digits env) count_window)) (\<lambda>n.
              call (Set_count_window serial n)))
            else if lower action = SET_TOKENINFO then
              bind (lift (py_get handler_options ''key'' PNone)) (\<lambda>key.
              bind (lift (py_get handler_options ''value'' PNone)) (\<lambda>v.
              call (Add_tokeninfo serial key (if truthy v then v else PStr []))))
            else if lower action = SET_VALIDITY then
              bind (lift (py_get handler_options VALIDITY_START PNone)) (\<lambda>start_date.
              bind (lift (py_get handler_options VALIDITY_END PNone)) (\<lambda>end_date.
              bind
                (if truthy start_date then
                   bind (lift (parse_date env start_date)) (\<lambda>d.
                   call (Set_validity_period_start serial PNone
                           (strftime_DATE_FORMAT env d)))
                 else ret ()) (\<lambda>_.
              if truthy end_date then
                bind (lift (parse_date env end_date)) (\<lambda>d.
                call (Set_validity_period_end serial PNone
                        (strftime_DATE_FORMAT env d)))
              else ret ())))
            else ret ()
          else ret ()
        else ret ()) (\<lambda>_.
     bind
       (if lower action = INIT then
          bind (lift (py_get handler_options ''user'' PNone)) (\<lambda>u.
          bind
            (if py_in u [PStr ''1'', PInt 1, PBool True] then
               bind (call Get_tokenowner) (\<lambda>_.
               ret (Some (get_tokenowner env (all_data opts))))
             else ret None) (\<lambda>user.
          bind (lift (py_get handler_options ''tokentype'' PNone)) (\<lambda>tokentype.
          bind (lift (py_get handler_options ''realm'' (PStr []))) (\<lambda>realm.
          call (Init_token [(''type'', tokentype), (''genkey'', PInt 1), (''realm'', realm)]
                  user)))))
        else ret ()) (\<lambda>_.
     ret True))))"

subsection \<open>Reading the results\<close>

text \<open>\<open>actions[a][opt]["value"]\<close>, None when one of the keys is missing.\<close>

definition option_value :: "dict \<Rightarrow> string \<Rightarrow> string \<Rightarrow> pyval option" where
  "option_value acts a opt =
     (case map_of acts a of
        Some (PDict os) \<Rightarrow>
          (case map_of os opt of
             Some (PDict d) \<Rightarrow> map_of d ''value''
           | _ \<Rightarrow> None)
      | _ \<Rightarrow> None)"

text \<open>
  An action name matches an identifier up to the case of its letters: character by
  character, the two are the same or one is the upper-case form of the other.
\<close>

definition is_upper :: "char \<Rightarrow> bool" where
  "is_upper c = (c \<in> set ''ABCDEFGHIJKLMNOPQRSTUVWXYZ'')"

definition same_letter :: "char \<Rightarrow> char \<Rightarrow> bool" where
  "same_letter x y =
     (x = y \<or>
      (x, y) \<in> set (zip ''ABCDEFGHIJKLMNOPQRSTUVWXYZ'' ''abcdefghijklmnopqrstuvwxyz'') \<or>
      (y, x) \<in> set (zip ''ABCDEFGHIJKLMNOPQRSTUVWXYZ'' ''abcdefghijklmnopqrstuvwxyz''))"

definition matches_ignoring_case :: "string \<Rightarrow> string \<Rightarrow> bool" where
  "matches_ignoring_case action ident = list_all2 same_letter action ident"



subsection \<open>A concrete setting for the examples\<close>

text \<open>
  A JSON decoder that knows the documents \<open>{}\<close> and \<open>[]\<close>, the default limit
  of 4300 digits, a date parser that takes
  the offsets (strings starting with a plus sign) as they are and rejects every other
  string, and a fixed token owner. The event of the examples has an empty audit record
  and the response body \<open>{}\<close>.
\<close>

definition example_env :: "(string, string) env" where
  "example_env =
     \<lparr>json_loads = (\<lambda>s. if s = ''{}'' then Some (PDict [])
                         else if s = ''[]'' then Some (PList []) else None),
      int_max_str_digits = 4300,
      parse_date = (\<lambda>v. case v of
                            PStr (c # cs) \<Rightarrow> if c = CHR ''+'' then Inr (c # cs) else Inl ValueError
                          | _ \<Rightarrow> Inl AttributeError),
      strftime_DATE_FORMAT = (\<lambda>d. d),
      get_tokenowner = (\<lambda>r. ''owner'')\<rparr>"

definition example_options :: "dict \<Rightarrow> dict \<Rightarrow> options" where
  "example_options req ho =
     \<lparr>audit_data = [], all_data = req, response_data = ''{}'',
      handler_def = [(''options'', PDict ho)]\<rparr>"

definition example_enumerations :: "(dict \<times> string list) enumerations" where
  "example_enumerations = \<lparr>get_realms = fst, get_token_types = snd, gettext = (\<lambda>s. s)\<rparr>"

section \<open>Basic facts\<close>

lemmas ACTION_TYPE_defs =
  SET_TOKENREALM_def DELETE_def UNASSIGN_def DISABLE_def ENABLE_def INIT_def
  SET_DESCRIPTION_def SET_VALIDITY_def SET_COUNTWINDOW_def SET_TOKENINFO_def


lemmas run_defs = ret_def raise_def call_def lift_def bind_def

lemmas example_defs =
  example_env_def example_options_def serial_of_def dict_get_def lower_def lower_char_def

lemmas int_defs =
  int_of_str_def strip_def is_space_def unsigned_of_str_def is_digit_def digit_val_def
  digits_val_def

text \<open>
  On the values a serial number can have, a string or None, being truthy is being
  neither None nor the empty string.
\<close>

lemma truthy_serial:
  "v = PNone \<or> (\<exists>s. v = PStr s) \<Longrightarrow> truthy v = (v \<noteq> PNone \<and> v \<noteq> PStr [])"
  by auto

subsection \<open>The serial number\<close>

lemma serial_of_request:
  "truthy (dict_get req ''serial'' PNone) \<Longrightarrow>
   serial_of req content audit = Inr (dict_get req ''serial'' PNone)"
  by (simp add: serial_of_def)

lemma serial_of_detail:
  assumes "\<not> truthy (dict_get req ''serial'' PNone)"
    and "py_get content ''detail'' (PDict []) = Inr (PDict detail)"
  shows "serial_of req content audit =
           Inr (if truthy (dict_get detail ''serial'' PNone)
                then dict_get detail ''serial'' PNone
                else dict_get audit ''serial'' PNone)"
  using assms by (simp add: serial_of_def)

lemma serial_of_no_detail:
  assumes "\<not> truthy (dict_get req ''serial'' PNone)"
    and "\<forall>detail. py_get content ''detail'' (PDict []) \<noteq> Inr (PDict detail)"
  shows "serial_of req content audit = Inl AttributeError"
proof (cases "py_get content ''detail'' (PDict [])")
  case (Inl e)
  then have "e = AttributeError" by (cases content) simp_all
  with Inl assms(1) show ?thesis by (simp add: serial_of_def)
next
  case (Inr d)
  with assms(2) have "\<forall>detail. d \<noteq> PDict detail" by simp
  then have "py_get d ''serial'' PNone = Inl AttributeError" by (cases d) simp_all
  with Inr assms(1) show ?thesis by (simp add: serial_of_def)
qed

subsection \<open>Letter case\<close>

lemma lower_char_eq_iff:
  assumes "\<not> is_upper y"
  shows "(lower_char x = y) = same_letter x y"
proof -
  define U where "U = ''ABCDEFGHIJKLMNOPQRSTUVWXYZ''"
  define Z where "Z = zip U ''abcdefghijklmnopqrstuvwxyz''"
  have d: "distinct (map fst Z)"
    by (simp add: Z_def U_def)
  have u: "a \<in> set U" if "(a, b) \<in> set Z" for a b
    using that unfolding Z_def by (rule set_zip_leftD)
  have lc: "lower_char x = (case map_of Z x of None \<Rightarrow> x | Some l \<Rightarrow> l)"
    by (simp only: lower_char_def Z_def U_def)
  have sl: "same_letter x y = (x = y \<or> (x, y) \<in> set Z \<or> (y, x) \<in> set Z)"
    by (simp only: same_letter_def Z_def U_def)
  have y: "y \<notin> set U"
    using assms unfolding is_upper_def U_def .
  have ny: "(y, x) \<notin> set Z"
    using u y by blast
  have m: "(map_of Z x = Some b) = ((x, b) \<in> set Z)" for b
    using d by (rule map_of_eq_Some_iff)
  show ?thesis
  proof (cases "map_of Z x")
    case None
    then have "(x, y) \<notin> set Z"
      using m [of y] by simp
    with None ny show ?thesis
      by (simp add: lc sl)
  next
    case (Some l)
    then have "(x, l) \<in> set Z"
      using m [of l] by simp
    then have "x \<in> set U" by (rule u)
    with y have "x \<noteq> y" by blast
    moreover have "((x, y) \<in> set Z) = (l = y)"
      using m [of y] Some by auto
    ultimately show ?thesis
      using ny Some by (simp add: lc sl)
  qed
qed

lemma lower_eq_iff:
  "list_all (\<lambda>c. \<not> is_upper c) ident \<Longrightarrow>
   (lower action = ident) = matches_ignoring_case action ident"
proof (induction action arbitrary: ident)
  case Nil
  show ?case by (auto simp: lower_def matches_ignoring_case_def)
next
  case (Cons x xs)
  show ?case
  proof (cases ident)
    case Nil
    then show ?thesis by (simp add: lower_def matches_ignoring_case_def)
  next
    case (Cons y ys)
    with Cons.prems have y: "\<not> is_upper y" and ys: "list_all (\<lambda>c. \<not> is_upper c) ys"
      by simp_all
    from Cons.IH [OF ys] have "(lower xs = ys) = matches_ignoring_case xs ys" .
    with lower_char_eq_iff [OF y, of x] Cons show ?thesis
      by (simp add: lower_def matches_ignoring_case_def)
  qed
qed

lemma matches_ignoring_case_refl: "matches_ignoring_case s s"
  by (simp add: matches_ignoring_case_def same_letter_def list_all2_same)

lemma lower_identifier:
  assumes "ident \<in> set [SET_TOKENREALM, DELETE, UNASSIGN, DISABLE, ENABLE, INIT,
      SET_DESCRIPTION, SET_VALIDITY, SET_COUNTWINDOW, SET_TOKENINFO]"
  shows "(lower action = ident) = matches_ignoring_case action ident"
proof -
  from assms have "list_all (\<lambda>c. \<not> is_upper c) ident"
    by (auto simp: ACTION_TYPE_defs is_upper_def)
  then show ?thesis by (rule lower_eq_iff)
qed

lemma known_action_iff:
  "(lower action \<in> set [SET_TOKENREALM, DELETE, UNASSIGN, DISABLE, ENABLE, INIT,
      SET_DESCRIPTION, SET_VALIDITY, SET_COUNTWINDOW, SET_TOKENINFO]) =
   list_ex (matches_ignoring_case action)
     [SET_TOKENREALM, DELETE, UNASSIGN, DISABLE, ENABLE, INIT,
      SET_DESCRIPTION, SET_VALIDITY, SET_COUNTWINDOW, SET_TOKENINFO]"
  using lower_identifier [of _ action] by (simp add: list_ex_iff)

subsection \<open>What \<open>do\<close> does, case by case\<close>

lemma do_not_json:
  "json_loads env (response_data opts) = None \<Longrightarrow> do env action opts = (Inl ValueError, [])"
  by (simp add: do_def run_defs)

lemma do_no_detail:
  assumes "json_loads env (response_data opts) = Some content"
    and "serial_of (all_data opts) content (audit_data opts) = Inl e"
  shows "do env action opts = (Inl e, [])"
  using assms by (simp add: do_def run_defs Let_def)

lemma do_other:
  assumes "json_loads env (response_data opts) = Some content"
    and "serial_of (all_data opts) content (audit_data opts) = Inr serial"
    and "lower action \<notin> set [SET_TOKENREALM, DELETE, UNASSIGN, DISABLE, ENABLE, INIT,
      SET_DESCRIPTION, SET_VALIDITY, SET_COUNTWINDOW, SET_TOKENINFO]"
  shows "do env action opts = (Inr True, [])"
  using assms by (simp add: do_def run_defs Let_def)

lemma do_no_serial:
  assumes "json_loads env (response_data opts) = Some content"
    and "serial_of (all_data opts) content (audit_data opts) = Inr serial"
    and "\<not> truthy serial"
    and "lower action \<noteq> INIT"
  shows "do env action opts = (Inr True, [])"
  using assms by (simp add: do_def run_defs Let_def)

lemma do_lower: "lower a = lower b \<Longrightarrow> do env a opts = do env b opts"
  unfolding do_def by (simp only:)

section \<open>The actions on a token\<close>


lemma do_simple:
  assumes "json_loads env (response_data opts) = Some content"
    and "serial_of (all_data opts) content (audit_data opts) = Inr serial"
    and "truthy serial"
  shows "lower action = DELETE \<Longrightarrow> do env action opts = (Inr True, [Remove_token serial])"
    and "lower action = DISABLE \<Longrightarrow>
           do env action opts = (Inr True, [Enable_token serial False])"
    and "lower action = ENABLE \<Longrightarrow>
           do env action opts = (Inr True, [Enable_token serial True])"
    and "lower action = UNASSIGN \<Longrightarrow>
           do env action opts = (Inr True, [Unassign_token serial])"
  using assms by (simp_all add: do_def run_defs Let_def ACTION_TYPE_defs)


lemma do_set_countwindow:
  assumes "json_loads env (response_data opts) = Some content"
    and "serial_of (all_data opts) content (audit_data opts) = Inr serial"
    and "truthy serial"
    and "lower action = SET_COUNTWINDOW"
  shows "do env action opts =
     (case py_get (dict_get (handler_def opts) ''options'' (PDict [])) ''count window''
             (PInt 50) of
        Inl e \<Rightarrow> (Inl e, [])
      | Inr count_window \<Rightarrow>
          (case py_int (int_max_str_digits env) count_window of
             Inl e \<Rightarrow> (Inl e, [])
           | Inr n \<Rightarrow> (Inr True, [Set_count_window serial n])))"
  using assms
  by (simp add: do_def run_defs Let_def ACTION_TYPE_defs split: sum.splits)




lemma do_no_dict:
  assumes "json_loads env (response_data opts) = Some content"
    and "serial_of (all_data opts) content (audit_data opts) = Inr serial"
    and "truthy serial"
    and "lower action = SET_COUNTWINDOW"
    and "\<forall>ho. dict_get (handler_def opts) ''options'' (PDict []) \<noteq> PDict ho"
  shows "do env action opts = (Inl AttributeError, [])"
  using assms
  by (cases "dict_get (handler_def opts) ''options'' (PDict [])")
     (simp_all add: do_def run_defs Let_def ACTION_TYPE_defs)

lemma py_in_user:
  "py_in u [PStr ''1'', PInt 1, PBool True] =
     (u \<in> {PStr ''1'', PInt 1, PBool True, PFloat (Finite 1)})"
proof (cases u)
  case (PFloat x)
  then show ?thesis by (cases x) (auto simp: py_in_def py_eq_def)
qed (auto simp: py_in_def py_eq_def)

lemma do_enroll:
  assumes "json_loads env (response_data opts) = Some content"
    and "serial_of (all_data opts) content (audit_data opts) = Inr serial"
    and "lower action = INIT"
    and "dict_get (handler_def opts) ''options'' (PDict []) = PDict ho"
  shows "do env action opts =
     (Inr True,
      if dict_get ho ''user'' PNone \<in> {PStr ''1'', PInt 1, PBool True, PFloat (Finite 1)}
      then [Get_tokenowner,
            Init_token [(''type'', dict_get ho ''tokentype'' PNone), (''genkey'', PInt 1),
                        (''realm'', dict_get ho ''realm'' (PStr []))]
              (Some (get_tokenowner env (all_data opts)))]
      else [Init_token [(''type'', dict_get ho ''tokentype'' PNone), (''genkey'', PInt 1),
                        (''realm'', dict_get ho ''realm'' (PStr []))] None])"
  using assms by (simp add: do_def run_defs Let_def ACTION_TYPE_defs py_in_user)

lemma do_enroll_no_dict:
  assumes "json_loads env (response_data opts) = Some content"
    and "serial_of (all_data opts) content (audit_data opts) = Inr serial"
    and "lower action = INIT"
    and "\<forall>ho. dict_get (handler_def opts) ''options'' (PDict []) \<noteq> PDict ho"
  shows "do env action opts = (Inl AttributeError, [])"
  using assms
  by (cases "dict_get (handler_def opts) ''options'' (PDict [])")
     (simp_all add: do_def run_defs Let_def ACTION_TYPE_defs)

text \<open>
  C3. Setting the token realm with a serial number adds the configured realm to the
  token's realms, and the option \<open>only_realm\<close> is meant to make the new realm replace
  the others. The handler reads \<open>only_realm\<close> and then calls \<open>set_realms\<close> with
  \<open>add=True\<close> all the same: with \<open>only_realm\<close> true the call is the one made without
  the option.
\<close>

theorem only_realm_ignored:
  "do example_env ''set tokenrealm''
     (example_options [(''serial'', PStr ''A'')]
        [(''realm'', PStr ''r1''), (''only_realm'', PBool True)])
   = (Inr True, [Set_realms (PStr ''A'') [PStr ''r1''] True]) \<and>
   do example_env ''set tokenrealm''
     (example_options [(''serial'', PStr ''A'')] [(''realm'', PStr ''r1'')])
   = (Inr True, [Set_realms (PStr ''A'') [PStr ''r1''] True])"
  by (simp add: do_def run_defs example_defs ACTION_TYPE_defs)

section \<open>Target resolution\<close>

text \<open>
  C1, as the code has it. The serial number is chosen by strict precedence: the
  request's \<open>serial\<close> when it is truthy (for a string or None: neither None nor
  empty; a zero or false value counts as missing too); otherwise, for a decoded response
  that is a dict whose \<open>detail\<close> is absent or a dict, the \<open>serial\<close> under
  \<open>detail\<close> when that is truthy; otherwise the audit record's \<open>serial\<close>. So with
  request serial A and detail serial B the result is A, and without a request serial,
  with detail serial B and audit serial C, the result is B. When the request has no
  truthy serial and the decoded response is not a dict, or its \<open>detail\<close> is present
  and not a dict, the lookup raises AttributeError and nothing is selected, whatever the
  audit record holds.
\<close>

theorem serial_precedence:
  "(truthy (dict_get req ''serial'' PNone) \<longrightarrow>
      serial_of req content audit = Inr (dict_get req ''serial'' PNone)) \<and>
   (\<not> truthy (dict_get req ''serial'' PNone) \<and>
    py_get content ''detail'' (PDict []) = Inr (PDict detail) \<longrightarrow>
      serial_of req content audit =
        Inr (if truthy (dict_get detail ''serial'' PNone)
             then dict_get detail ''serial'' PNone
             else dict_get audit ''serial'' PNone)) \<and>
   (\<not> truthy (dict_get req ''serial'' PNone) \<and>
    (\<forall>detail. py_get content ''detail'' (PDict []) \<noteq> Inr (PDict detail)) \<longrightarrow>
      serial_of req content audit = Inl AttributeError)"
  using serial_of_request [of req content audit]
    serial_of_detail [of req content detail audit]
    serial_of_no_detail [of req content audit]
  by blast

theorem serial_precedence_witness:
  "serial_of [(''serial'', PStr ''A'')]
     (PDict [(''detail'', PDict [(''serial'', PStr ''B'')])]) [(''serial'', PStr ''C'')]
     = Inr (PStr ''A'') \<and>
   serial_of [] (PDict [(''detail'', PDict [(''serial'', PStr ''B'')])])
     [(''serial'', PStr ''C'')] = Inr (PStr ''B'') \<and>
   serial_of [(''serial'', PStr [])] (PDict [(''detail'', PDict [(''serial'', PNone)])])
     [(''serial'', PStr ''C'')] = Inr (PStr ''C'') \<and>
   serial_of [] (PDict []) [(''serial'', PStr ''C'')] = Inr (PStr ''C'') \<and>
   serial_of [] (PDict [(''detail'', PStr ''B'')]) [(''serial'', PStr ''C'')]
     = Inl AttributeError"
  using
    serial_precedence [where req = "[(''serial'', PStr ''A'')]"
      and content = "PDict [(''detail'', PDict [(''serial'', PStr ''B'')])]"
      and detail = "[(''serial'', PStr ''B'')]" and audit = "[(''serial'', PStr ''C'')]"]
    serial_precedence [where req = "[]"
      and content = "PDict [(''detail'', PDict [(''serial'', PStr ''B'')])]"
      and detail = "[(''serial'', PStr ''B'')]" and audit = "[(''serial'', PStr ''C'')]"]
    serial_precedence [where req = "[(''serial'', PStr [])]"
      and content = "PDict [(''detail'', PDict [(''serial'', PNone)])]"
      and detail = "[(''serial'', PNone)]" and audit = "[(''serial'', PStr ''C'')]"]
    serial_precedence [where req = "[]" and content = "PDict []"
      and detail = "[]" and audit = "[(''serial'', PStr ''C'')]"]
    serial_precedence [where req = "[]" and content = "PDict [(''detail'', PStr ''B'')]"
      and detail = "[]" and audit = "[(''serial'', PStr ''C'')]"]
  by (simp add: dict_get_def)

text \<open>
  A response whose \<open>detail\<close> is null, or that is a list, makes the lookup raise
  although the audit record has the serial C; and the request serial 0, which is not
  null, is passed over for the serial B of the response.
\<close>

theorem serial_precedence_counterexample:
  "serial_of [] (PDict [(''detail'', PNone)]) [(''serial'', PStr ''C'')]
     = Inl AttributeError \<and>
   serial_of [] (PList []) [(''serial'', PStr ''C'')] = Inl AttributeError \<and>
   serial_of [(''serial'', PInt 0)]
     (PDict [(''detail'', PDict [(''serial'', PStr ''B'')])]) [] = Inr (PStr ''B'')"
  by (simp add: serial_of_def dict_get_def)

text \<open>
  C2, as the code has it. For each of the nine actions that need a token, when the
  request, the detail section of the response and the audit record have no truthy
  \<open>serial\<close>, \<open>do\<close> makes no collaborator call. It returns True when the response
  body is JSON for a dict whose \<open>detail\<close> is absent or a dict. When the body is not
  JSON \<open>do\<close> raises ValueError, and when the decoded body is not a dict or its
  \<open>detail\<close> is not a dict \<open>do\<close> raises AttributeError, both without a call.
\<close>

theorem no_serial_no_action:
  assumes "lower action \<in> set [SET_TOKENREALM, DELETE, UNASSIGN, DISABLE, ENABLE,
                                  SET_DESCRIPTION, SET_COUNTWINDOW, SET_TOKENINFO,
                                  SET_VALIDITY]"
    and "\<not> truthy (dict_get (all_data opts) ''serial'' PNone)"
  shows
    "(json_loads env (response_data opts) = None \<longrightarrow>
        do env action opts = (Inl ValueError, [])) \<and>
     (json_loads env (response_data opts) = Some content \<and>
      (\<forall>detail. py_get content ''detail'' (PDict []) \<noteq> Inr (PDict detail)) \<longrightarrow>
        do env action opts = (Inl AttributeError, [])) \<and>
     (json_loads env (response_data opts) = Some content \<and>
      py_get content ''detail'' (PDict []) = Inr (PDict detail) \<and>
      \<not> truthy (dict_get detail ''serial'' PNone) \<and>
      \<not> truthy (dict_get (audit_data opts) ''serial'' PNone) \<longrightarrow>
        do env action opts = (Inr True, []))"
proof (intro conjI impI)
  assume "json_loads env (response_data opts) = None"
  then show "do env action opts = (Inl ValueError, [])" by (rule do_not_json)
next
  assume a: "json_loads env (response_data opts) = Some content \<and>
    (\<forall>detail. py_get content ''detail'' (PDict []) \<noteq> Inr (PDict detail))"
  then have "serial_of (all_data opts) content (audit_data opts) = Inl AttributeError"
    using assms(2) by (simp add: serial_of_no_detail)
  with a show "do env action opts = (Inl AttributeError, [])"
    by (simp add: do_no_detail)
next
  assume a: "json_loads env (response_data opts) = Some content \<and>
    py_get content ''detail'' (PDict []) = Inr (PDict detail) \<and>
    \<not> truthy (dict_get detail ''serial'' PNone) \<and>
    \<not> truthy (dict_get (audit_data opts) ''serial'' PNone)"
  then have "serial_of (all_data opts) content (audit_data opts) =
          Inr (dict_get (audit_data opts) ''serial'' PNone)"
    using assms(2) by (simp add: serial_of_detail)
  moreover have "lower action \<noteq> INIT"
    using assms(1) by (auto simp: ACTION_TYPE_defs)
  ultimately show "do env action opts = (Inr True, [])"
    using a by (simp add: do_no_serial)
qed

theorem no_serial_no_action_witness:
  "do example_env ''Set Validity''
     (example_options [(''serial'', PStr [])] [(''valid from'', PStr ''+1d'')])
   = (Inr True, []) \<and>
   do example_env ''Set Validity''
     \<lparr>audit_data = [], all_data = [], response_data = ''[]'', handler_def = []\<rparr>
   = (Inl AttributeError, []) \<and>
   do example_env ''Set Validity''
     \<lparr>audit_data = [], all_data = [], response_data = ''<html>'', handler_def = []\<rparr>
   = (Inl ValueError, [])"
  using
    no_serial_no_action [where action = "''Set Validity''" and env = example_env
      and opts = "example_options [(''serial'', PStr [])] [(''valid from'', PStr ''+1d'')]"
      and content = "PDict []" and detail = "[]"]
    no_serial_no_action [where action = "''Set Validity''" and env = example_env
      and opts = "\<lparr>audit_data = [], all_data = [], response_data = ''[]'',
                   handler_def = []\<rparr>"
      and content = "PList []" and detail = "[]"]
    no_serial_no_action [where action = "''Set Validity''" and env = example_env
      and opts = "\<lparr>audit_data = [], all_data = [], response_data = ''<html>'',
                   handler_def = []\<rparr>"
      and content = "PList []" and detail = "[]"]
  by (simp add: example_defs ACTION_TYPE_defs)

text \<open>
  Deleting without a serial anywhere: for the response body \<open>[]\<close>, and for a response
  whose \<open>detail\<close> is null, \<open>do\<close> raises AttributeError, and for a body that is not
  JSON it raises ValueError; it does not return True.
\<close>

theorem no_serial_no_action_counterexample:
  "do example_env ''delete''
     \<lparr>audit_data = [], all_data = [], response_data = ''[]'', handler_def = []\<rparr>
   = (Inl AttributeError, []) \<and>
   do (example_env\<lparr>json_loads := \<lambda>s. Some (PDict [(''detail'', PNone)])\<rparr>) ''delete''
     \<lparr>audit_data = [], all_data = [], response_data = ''{}'', handler_def = []\<rparr>
   = (Inl AttributeError, []) \<and>
   do example_env ''delete''
     \<lparr>audit_data = [], all_data = [], response_data = ''<html>'', handler_def = []\<rparr>
   = (Inl ValueError, [])"
  by (simp add: do_def run_defs example_defs ACTION_TYPE_defs)

section \<open>Dispatch\<close>

text \<open>
  C5, as the code has it. An action name that matches none of the ten action
  identifiers, whatever the case of its letters, makes \<open>do\<close> perform no collaborator
  call: \<open>do\<close> returns True when the response body is JSON and the serial lookup does
  not raise, and otherwise raises the error of the decoding (ValueError) or of the
  lookup (AttributeError). The matching ignores case: a name that matches an identifier
  up to the case of its letters is lowered to that identifier and is handled as the
  identifier is.
\<close>

theorem unknown_action_ignored:
  "(\<not> list_ex (matches_ignoring_case action)
        [SET_TOKENREALM, DELETE, UNASSIGN, DISABLE, ENABLE, INIT,
         SET_DESCRIPTION, SET_VALIDITY, SET_COUNTWINDOW, SET_TOKENINFO] \<longrightarrow>
      do env action opts =
        (case json_loads env (response_data opts) of
           None \<Rightarrow> (Inl ValueError, [])
         | Some content \<Rightarrow>
             (case serial_of (all_data opts) content (audit_data opts) of
                Inl e \<Rightarrow> (Inl e, [])
              | Inr serial \<Rightarrow> (Inr True, [])))) \<and>
   (ident \<in> set [SET_TOKENREALM, DELETE, UNASSIGN, DISABLE, ENABLE, INIT,
                  SET_DESCRIPTION, SET_VALIDITY, SET_COUNTWINDOW, SET_TOKENINFO] \<and>
    matches_ignoring_case action ident \<longrightarrow>
      lower action = ident \<and> do env action opts = do env ident opts)"
proof (intro conjI impI)
  assume "\<not> list_ex (matches_ignoring_case action)
        [SET_TOKENREALM, DELETE, UNASSIGN, DISABLE, ENABLE, INIT,
         SET_DESCRIPTION, SET_VALIDITY, SET_COUNTWINDOW, SET_TOKENINFO]"
  then have u: "lower action \<notin> set [SET_TOKENREALM, DELETE, UNASSIGN, DISABLE, ENABLE, INIT,
         SET_DESCRIPTION, SET_VALIDITY, SET_COUNTWINDOW, SET_TOKENINFO]"
    by (simp only: known_action_iff not_False_eq_True)
  show "do env action opts =
        (case json_loads env (response_data opts) of
           None \<Rightarrow> (Inl ValueError, [])
         | Some content \<Rightarrow>
             (case serial_of (all_data opts) content (audit_data opts) of
                Inl e \<Rightarrow> (Inl e, [])
              | Inr serial \<Rightarrow> (Inr True, [])))"
  proof (cases "json_loads env (response_data opts)")
    case None
    then show ?thesis by (simp add: do_not_json)
  next
    case (Some content)
    show ?thesis
    proof (cases "serial_of (all_data opts) content (audit_data opts)")
      case (Inl e)
      with Some show ?thesis by (simp add: do_no_detail)
    next
      case (Inr serial)
      from do_other [OF Some Inr u] Some Inr show ?thesis by simp
    qed
  qed
next
  assume a: "ident \<in> set [SET_TOKENREALM, DELETE, UNASSIGN, DISABLE, ENABLE, INIT,
                  SET_DESCRIPTION, SET_VALIDITY, SET_COUNTWINDOW, SET_TOKENINFO] \<and>
    matches_ignoring_case action ident"
  then show l: "lower action = ident"
    by (simp only: lower_identifier)
  from a have "lower ident = ident"
    by (simp only: lower_identifier matches_ignoring_case_refl)
  with l show "do env action opts = do env ident opts"
    by (simp add: do_lower)
qed

theorem unknown_action_ignored_witness:
  "do example_env ''reboot'' (example_options [(''serial'', PStr ''A'')] []) = (Inr True, []) \<and>
   lower ''DELETE'' = DELETE \<and>
   do example_env ''DELETE'' (example_options [(''serial'', PStr ''A'')] [])
     = (Inr True, [Remove_token (PStr ''A'')])"
proof -
  have "\<not> list_ex (matches_ignoring_case ''reboot'')
        [SET_TOKENREALM, DELETE, UNASSIGN, DISABLE, ENABLE, INIT,
         SET_DESCRIPTION, SET_VALIDITY, SET_COUNTWINDOW, SET_TOKENINFO]"
    unfolding known_action_iff [symmetric]
    by (simp add: lower_def lower_char_def ACTION_TYPE_defs)
  moreover have "matches_ignoring_case ''DELETE'' DELETE"
    by (simp add: matches_ignoring_case_def same_letter_def DELETE_def)
  moreover have "do example_env DELETE (example_options [(''serial'', PStr ''A'')] [])
     = (Inr True, [Remove_token (PStr ''A'')])"
    by (rule do_simple(1) [where content = "PDict []"])
       (simp_all add: example_defs ACTION_TYPE_defs)
  ultimately show ?thesis
    using
      unknown_action_ignored [where env = example_env and action = "''reboot''"
        and opts = "example_options [(''serial'', PStr ''A'')] []"
        and ident = DELETE]
      unknown_action_ignored [where env = example_env and action = "''DELETE''"
        and opts = "example_options [(''serial'', PStr ''A'')] []"
        and ident = DELETE]
    by (simp add: example_env_def example_options_def serial_of_def dict_get_def)
qed

text \<open>
  The unknown action \<open>reboot\<close> does not return True when the response body is not
  JSON, or is the JSON list \<open>[]\<close> and the request has no serial: \<open>do\<close> raises.
\<close>

theorem unknown_action_ignored_counterexample:
  "do example_env ''reboot''
     \<lparr>audit_data = [], all_data = [(''serial'', PStr ''A'')], response_data = ''<html>'',
      handler_def = []\<rparr> = (Inl ValueError, []) \<and>
   do example_env ''reboot''
     \<lparr>audit_data = [], all_data = [], response_data = ''[]'', handler_def = []\<rparr>
   = (Inl AttributeError, [])"
  by (simp add: do_def run_defs example_defs ACTION_TYPE_defs)

text \<open>
  C10. Whatever the action name, \<open>do\<close> decodes the response body as JSON first: when
  the body is not JSON, \<open>do\<close> raises ValueError and has made no collaborator call.
\<close>

theorem do_requires_json:
  assumes "json_loads env (response_data opts) = None"
  shows "do env action opts = (Inl ValueError, [])"
  using assms by (rule do_not_json)

theorem do_requires_json_witness:
  "do example_env ''reboot''
     \<lparr>audit_data = [], all_data = [(''serial'', PStr ''A'')], response_data = ''<html>'',
      handler_def = []\<rparr> = (Inl ValueError, []) \<and>
   do example_env ''delete''
     \<lparr>audit_data = [], all_data = [(''serial'', PStr ''A'')], response_data = ''<html>'',
      handler_def = []\<rparr> = (Inl ValueError, [])"
  using
    do_requires_json [where env = example_env and action = "''reboot''"
      and opts = "\<lparr>audit_data = [], all_data = [(''serial'', PStr ''A'')],
                   response_data = ''<html>'', handler_def = []\<rparr>"]
    do_requires_json [where env = example_env and action = "''delete''"
      and opts = "\<lparr>audit_data = [], all_data = [(''serial'', PStr ''A'')],
                   response_data = ''<html>'', handler_def = []\<rparr>"]
  by (simp add: example_env_def)

section \<open>Enrolling a token\<close>

text \<open>
  C4, as the code has it. When enrolling, with a response body that is JSON and a serial
  lookup that does not raise, the token owner is looked up from the request exactly when
  the option \<open>user\<close> equals "1", 1 or True, that is, when it is the string "1", the
  integer 1, the boolean True or the float 1.0, and these give the same calls; when
  \<open>user\<close> is absent or anything else, no owner is attached: the token is created
  without one, or, when the handler options are not a dict, \<open>do\<close> raises
  AttributeError before creating it. When the response body is not JSON or the serial
  lookup raises, \<open>do\<close> raises before it gets to enrolling: no owner is looked up and
  no token is created, whatever \<open>user\<close> is.
\<close>

theorem enroll_owner:
  assumes "lower action = INIT"
  shows
    "(json_loads env (response_data opts) = None \<longrightarrow>
        do env action opts = (Inl ValueError, [])) \<and>
     (json_loads env (response_data opts) = Some content \<and>
      serial_of (all_data opts) content (audit_data opts) = Inl e \<longrightarrow>
        do env action opts = (Inl e, [])) \<and>
     (json_loads env (response_data opts) = Some content \<and>
      serial_of (all_data opts) content (audit_data opts) = Inr serial \<longrightarrow>
        do env action opts =
          (case dict_get (handler_def opts) ''options'' (PDict []) of
             PDict ho \<Rightarrow>
               (Inr True,
                if dict_get ho ''user'' PNone
                     \<in> {PStr ''1'', PInt 1, PBool True, PFloat (Finite 1)}
                then [Get_tokenowner,
                      Init_token [(''type'', dict_get ho ''tokentype'' PNone),
                                  (''genkey'', PInt 1),
                                  (''realm'', dict_get ho ''realm'' (PStr []))]
                        (Some (get_tokenowner env (all_data opts)))]
                else [Init_token [(''type'', dict_get ho ''tokentype'' PNone),
                                  (''genkey'', PInt 1),
                                  (''realm'', dict_get ho ''realm'' (PStr []))] None])
           | _ \<Rightarrow> (Inl AttributeError, [])))"
proof (intro conjI impI)
  assume "json_loads env (response_data opts) = None"
  then show "do env action opts = (Inl ValueError, [])" by (rule do_not_json)
next
  assume "json_loads env (response_data opts) = Some content \<and>
      serial_of (all_data opts) content (audit_data opts) = Inl e"
  then show "do env action opts = (Inl e, [])" by (simp add: do_no_detail)
next
  assume "json_loads env (response_data opts) = Some content \<and>
      serial_of (all_data opts) content (audit_data opts) = Inr serial"
  then have r: "json_loads env (response_data opts) = Some content"
      "serial_of (all_data opts) content (audit_data opts) = Inr serial"
    by simp_all
  let ?ho = "dict_get (handler_def opts) ''options'' (PDict [])"
  show "do env action opts =
          (case ?ho of
             PDict ho \<Rightarrow>
               (Inr True,
                if dict_get ho ''user'' PNone
                     \<in> {PStr ''1'', PInt 1, PBool True, PFloat (Finite 1)}
                then [Get_tokenowner,
                      Init_token [(''type'', dict_get ho ''tokentype'' PNone),
                                  (''genkey'', PInt 1),
                                  (''realm'', dict_get ho ''realm'' (PStr []))]
                        (Some (get_tokenowner env (all_data opts)))]
                else [Init_token [(''type'', dict_get ho ''tokentype'' PNone),
                                  (''genkey'', PInt 1),
                                  (''realm'', dict_get ho ''realm'' (PStr []))] None])
           | _ \<Rightarrow> (Inl AttributeError, []))"
  proof (cases "\<exists>ho. ?ho = PDict ho")
    case True
    then obtain ho where ho: "?ho = PDict ho" ..
    from do_enroll [OF r assms ho] ho show ?thesis by simp
  next
    case False
    then have n: "\<forall>ho. ?ho \<noteq> PDict ho" by simp
    from do_enroll_no_dict [OF r assms n] n show ?thesis
      by (cases ?ho) simp_all
  qed
qed

theorem enroll_owner_witness:
  "do example_env ''Enroll''
     (example_options [] [(''tokentype'', PStr ''hotp''), (''user'', PStr ''1'')])
   = (Inr True,
      [Get_tokenowner,
       Init_token [(''type'', PStr ''hotp''), (''genkey'', PInt 1), (''realm'', PStr [])]
         (Some ''owner'')]) \<and>
   do example_env ''Enroll''
     (example_options [] [(''tokentype'', PStr ''hotp''), (''user'', PInt 1)])
   = do example_env ''Enroll''
       (example_options [] [(''tokentype'', PStr ''hotp''), (''user'', PStr ''1'')]) \<and>
   do example_env ''Enroll''
     (example_options [] [(''tokentype'', PStr ''hotp''), (''user'', PBool True)])
   = do example_env ''Enroll''
       (example_options [] [(''tokentype'', PStr ''hotp''), (''user'', PStr ''1'')]) \<and>
   do example_env ''Enroll''
     (example_options [] [(''tokentype'', PStr ''hotp''), (''user'', PFloat (Finite 1))])
   = do example_env ''Enroll''
       (example_options [] [(''tokentype'', PStr ''hotp''), (''user'', PStr ''1'')]) \<and>
   do example_env ''Enroll''
     (example_options [] [(''tokentype'', PStr ''hotp''), (''user'', PStr ''true'')])
   = (Inr True,
      [Init_token [(''type'', PStr ''hotp''), (''genkey'', PInt 1), (''realm'', PStr [])]
         None]) \<and>
   do example_env ''Enroll'' (example_options [] [(''tokentype'', PStr ''hotp'')])
   = (Inr True,
      [Init_token [(''type'', PStr ''hotp''), (''genkey'', PInt 1), (''realm'', PStr [])]
         None]) \<and>
   do example_env ''Enroll''
     \<lparr>audit_data = [], all_data = [], response_data = ''{}'',
      handler_def = [(''options'', PNone)]\<rparr> = (Inl AttributeError, []) \<and>
   do example_env ''Enroll''
     \<lparr>audit_data = [], all_data = [], response_data = ''[]'',
      handler_def = [(''options'', PDict [(''user'', PStr ''1'')])]\<rparr>
   = (Inl AttributeError, []) \<and>
   do example_env ''Enroll''
     \<lparr>audit_data = [], all_data = [], response_data = ''<html>'',
      handler_def = [(''options'', PDict [(''user'', PStr ''1'')])]\<rparr>
   = (Inl ValueError, [])"
proof -
  have l: "lower ''Enroll'' = INIT"
    by (simp add: lower_def lower_char_def INIT_def)
  have "do example_env ''Enroll'' (example_options [] ho) =
     (Inr True,
      if dict_get ho ''user'' PNone \<in> {PStr ''1'', PInt 1, PBool True, PFloat (Finite 1)}
      then [Get_tokenowner,
            Init_token [(''type'', dict_get ho ''tokentype'' PNone), (''genkey'', PInt 1),
                        (''realm'', dict_get ho ''realm'' (PStr []))]
              (Some ''owner'')]
      else [Init_token [(''type'', dict_get ho ''tokentype'' PNone), (''genkey'', PInt 1),
                        (''realm'', dict_get ho ''realm'' (PStr []))] None])" for ho
    using enroll_owner [OF l, where env = example_env
        and opts = "example_options [] ho" and content = "PDict []" and serial = PNone]
    by (simp add: example_env_def example_options_def serial_of_def dict_get_def)
  moreover have "do example_env ''Enroll''
     \<lparr>audit_data = [], all_data = [], response_data = ''{}'',
      handler_def = [(''options'', PNone)]\<rparr> = (Inl AttributeError, [])"
    using enroll_owner [OF l, where env = example_env
        and opts = "\<lparr>audit_data = [], all_data = [], response_data = ''{}'',
                     handler_def = [(''options'', PNone)]\<rparr>"
        and content = "PDict []" and serial = PNone]
    by (simp add: example_env_def serial_of_def dict_get_def)
  moreover have "do example_env ''Enroll''
     \<lparr>audit_data = [], all_data = [], response_data = ''[]'',
      handler_def = [(''options'', PDict [(''user'', PStr ''1'')])]\<rparr>
     = (Inl AttributeError, [])"
    using enroll_owner [OF l, where env = example_env
        and opts = "\<lparr>audit_data = [], all_data = [], response_data = ''[]'',
                     handler_def = [(''options'', PDict [(''user'', PStr ''1'')])]\<rparr>"
        and content = "PList []" and e = AttributeError]
    by (simp add: example_env_def serial_of_def dict_get_def)
  moreover have "do example_env ''Enroll''
     \<lparr>audit_data = [], all_data = [], response_data = ''<html>'',
      handler_def = [(''options'', PDict [(''user'', PStr ''1'')])]\<rparr>
     = (Inl ValueError, [])"
    using enroll_owner [OF l, where env = example_env
        and opts = "\<lparr>audit_data = [], all_data = [], response_data = ''<html>'',
                     handler_def = [(''options'', PDict [(''user'', PStr ''1'')])]\<rparr>"]
    by (simp add: example_env_def)
  ultimately show ?thesis by (simp add: dict_get_def)
qed

text \<open>
  The float 1.0 is none of the string "1", the integer 1 and the boolean True, and the
  owner is looked up for it; and with \<open>user\<close> set to "1" no owner is looked up when
  the response body is the JSON list \<open>[]\<close> or is not JSON, as \<open>do\<close> raises first.
\<close>

theorem enroll_owner_counterexample:
  "do example_env ''enroll''
     (example_options [] [(''tokentype'', PStr ''hotp''), (''user'', PFloat (Finite 1))])
   = (Inr True,
      [Get_tokenowner,
       Init_token [(''type'', PStr ''hotp''), (''genkey'', PInt 1), (''realm'', PStr [])]
         (Some ''owner'')]) \<and>
   PFloat (Finite 1) \<noteq> PStr ''1'' \<and> PFloat (Finite 1) \<noteq> PInt 1 \<and>
   PFloat (Finite 1) \<noteq> PBool True \<and>
   do example_env ''enroll''
     \<lparr>audit_data = [], all_data = [], response_data = ''[]'',
      handler_def = [(''options'', PDict [(''tokentype'', PStr ''hotp''),
                                          (''user'', PStr ''1'')])]\<rparr>
   = (Inl AttributeError, []) \<and>
   do example_env ''enroll''
     \<lparr>audit_data = [], all_data = [], response_data = ''<html>'',
      handler_def = [(''options'', PDict [(''tokentype'', PStr ''hotp''),
                                          (''user'', PStr ''1'')])]\<rparr>
   = (Inl ValueError, [])"
  by (simp add: do_def run_defs example_defs ACTION_TYPE_defs py_in_def py_eq_def)

section \<open>The count window\<close>

text \<open>
  C6, as the code has it. Setting the count window with a serial number takes the
  option \<open>count window\<close>, 50 when the option is absent, converts it with \<open>int\<close> and
  sets the token's count window to the result. A value that \<open>int\<close> rejects is not
  replaced by 50: \<open>do\<close> raises the error of \<open>int\<close> and makes no call. Handler options
  that are not a dict raise AttributeError.
\<close>

theorem set_countwindow_default:
  assumes "lower action = SET_COUNTWINDOW"
    and "json_loads env (response_data opts) = Some content"
    and "serial_of (all_data opts) content (audit_data opts) = Inr serial"
    and "truthy serial"
  shows "do env action opts =
     (case dict_get (handler_def opts) ''options'' (PDict []) of
        PDict ho \<Rightarrow>
          (case map_of ho ''count window'' of
             None \<Rightarrow> (Inr True, [Set_count_window serial 50])
           | Some v \<Rightarrow>
               (case py_int (int_max_str_digits env) v of
                  Inr n \<Rightarrow> (Inr True, [Set_count_window serial n])
                | Inl e \<Rightarrow> (Inl e, [])))
      | _ \<Rightarrow> (Inl AttributeError, []))"
  using do_set_countwindow [OF assms(2,3,4,1)]
  by (cases "dict_get (handler_def opts) ''options'' (PDict [])")
     (simp_all add: dict_get_def split: option.splits sum.splits)

theorem set_countwindow_default_witness:
  "do example_env ''set countwindow'' (example_options [(''serial'', PStr ''A'')] [])
   = (Inr True, [Set_count_window (PStr ''A'') 50]) \<and>
   do example_env ''set countwindow''
     (example_options [(''serial'', PStr ''A'')] [(''count window'', PStr ''12'')])
   = (Inr True, [Set_count_window (PStr ''A'') 12]) \<and>
   do example_env ''set countwindow''
     (example_options [(''serial'', PStr ''A'')] [(''count window'', PStr '' 1_000 '')])
   = (Inr True, [Set_count_window (PStr ''A'') 1000]) \<and>
   do example_env ''set countwindow''
     (example_options [(''serial'', PStr ''A'')] [(''count window'', PNone)])
   = (Inl TypeError, [])"
  using
    set_countwindow_default [where action = "''set countwindow''" and env = example_env
      and opts = "example_options [(''serial'', PStr ''A'')] []"
      and content = "PDict []" and serial = "PStr ''A''"]
    set_countwindow_default [where action = "''set countwindow''" and env = example_env
      and opts = "example_options [(''serial'', PStr ''A'')] [(''count window'', PStr ''12'')]"
      and content = "PDict []" and serial = "PStr ''A''"]
    set_countwindow_default [where action = "''set countwindow''" and env = example_env
      and opts = "example_options [(''serial'', PStr ''A'')]
                    [(''count window'', PStr '' 1_000 '')]"
      and content = "PDict []" and serial = "PStr ''A''"]
    set_countwindow_default [where action = "''set countwindow''" and env = example_env
      and opts = "example_options [(''serial'', PStr ''A'')] [(''count window'', PNone)]"
      and content = "PDict []" and serial = "PStr ''A''"]
  by (simp add: example_defs ACTION_TYPE_defs int_defs)

text \<open>
  The count window \<open>abc\<close> is not replaced by the default: \<open>do\<close> raises ValueError
  and the count window is not set.
\<close>

theorem countwindow_unparseable_counterexample:
  "do example_env ''set countwindow''
     (example_options [(''serial'', PStr ''A'')] [(''count window'', PStr ''abc'')])
   = (Inl ValueError, []) \<and>
   do example_env ''set countwindow''
     (example_options [(''serial'', PStr ''A'')] [(''count window'', PStr ''abc'')])
   \<noteq> (Inr True, [Set_count_window (PStr ''A'') 50])"
  by (simp add: do_def run_defs example_defs ACTION_TYPE_defs int_defs)

section \<open>The validity period\<close>




section \<open>How many calls\<close>




section \<open>The action schema is current\<close>

text \<open>
  C9. Each evaluation of \<open>actions\<close> asks the collaborators for the realms and the token
  types: the allowed values of \<open>realm\<close> (for setting the token realm and for
  enrolling) are the realm names of the state at the time of the call and those of
  \<open>tokentype\<close> its token types, so nothing is kept from an earlier call; the only
  calls made are the two enumerations, neither of which changes anything.
\<close>

theorem actions_current:
  "(case (actions lib s :: dict \<times> 'u call list) of
      (schema, calls) \<Rightarrow>
        option_value schema SET_TOKENREALM ''realm'' = Some (keys (get_realms lib s)) \<and>
        option_value schema INIT ''realm'' = Some (keys (get_realms lib s)) \<and>
        option_value schema INIT ''tokentype''
          = Some (PList (map PStr (get_token_types lib s))) \<and>
        calls = [Get_realms, Get_token_types] \<and>
        filter is_mutation calls = [])"
  by (simp add: actions_def option_value_def Let_def ACTION_TYPE_defs)

theorem actions_current_witness:
  "option_value
     (fst (actions example_enumerations ([(''r1'', PDict [])], [''hotp''])
            :: dict \<times> unit call list))
     SET_TOKENREALM ''realm'' = Some (PList [PStr ''r1'']) \<and>
   option_value
     (fst (actions example_enumerations
             ([(''r1'', PDict []), (''r2'', PDict [])], [''hotp'', ''totp''])
            :: dict \<times> unit call list))
     SET_TOKENREALM ''realm'' = Some (PList [PStr ''r1'', PStr ''r2'']) \<and>
   option_value
     (fst (actions example_enumerations
             ([(''r1'', PDict []), (''r2'', PDict [])], [''hotp'', ''totp''])
            :: dict \<times> unit call list))
     INIT ''tokentype'' = Some (PList [PStr ''hotp'', PStr ''totp''])"
  using
    actions_current [where ?'u = unit and lib = example_enumerations
      and s = "([(''r1'', PDict [])], [''hotp''])"]
    actions_current [where ?'u = unit and lib = example_enumerations
      and s = "([(''r1'', PDict []), (''r2'', PDict [])], [''hotp'', ''totp''])"]
  by (simp add: example_enumerations_def keys_def split: prod.splits)

end
